theory Spec2Isabelle
  imports Main
begin

section \<open>Python strings\<close>

text \<open>
  A Python \<open>str\<close> is modelled as a \<open>string\<close>; a \<open>char\<close> stands for the code point of
  the same number, so the model covers the texts whose code points are below 256.
\<close>

definition is_space :: "char \<Rightarrow> bool" where
  \<comment> \<open>\<open>str.isspace\<close> on one character: TAB..CR, FS..US, SPACE, NEL, NBSP.\<close>
  "is_space c =
     (let n = (of_char c :: nat)
      in (9 \<le> n \<and> n \<le> 13) \<or> (28 \<le> n \<and> n \<le> 32) \<or> n = 133 \<or> n = 160)"

definition lower_char :: "char \<Rightarrow> char" where
  "lower_char c =
     (let n = (of_char c :: nat)
      in if (65 \<le> n \<and> n \<le> 90) \<or> (192 \<le> n \<and> n \<le> 222 \<and> n \<noteq> 215)
         then char_of (n + 32) else c)"

definition lower :: "string \<Rightarrow> string" where
  \<comment> \<open>\<open>s.lower()\<close>\<close>
  "lower s = map lower_char s"

fun startswith :: "string \<Rightarrow> string \<Rightarrow> bool" where
  \<comment> \<open>\<open>s.startswith(p)\<close>\<close>
  "startswith s [] = True"
| "startswith [] (p # ps) = False"
| "startswith (c # cs) (p # ps) = (c = p \<and> startswith cs ps)"

fun str_in :: "string \<Rightarrow> string \<Rightarrow> bool" where
  \<comment> \<open>\<open>t in s\<close> for two strings: \<open>t\<close> occurs in \<open>s\<close> as a contiguous run\<close>
  "str_in t [] = (t = [])"
| "str_in t (c # cs) = (startswith (c # cs) t \<or> str_in t cs)"

definition strip :: "string \<Rightarrow> string" where
  \<comment> \<open>\<open>s.strip()\<close>\<close>
  "strip s = rev (dropWhile is_space (rev (dropWhile is_space s)))"

fun words_acc :: "string \<Rightarrow> string \<Rightarrow> string list" where
  \<comment> \<open>the scan of \<open>s.split()\<close>; \<open>cur\<close> is the word being read\<close>
  "words_acc cur [] = (if cur = [] then [] else [cur])"
| "words_acc cur (c # cs) =
     (if is_space c
      then (if cur = [] then words_acc [] cs else cur # words_acc [] cs)
      else words_acc (cur @ [c]) cs)"

definition split_ws :: "string \<Rightarrow> string list" where
  \<comment> \<open>\<open>s.split()\<close>: the maximal runs of non-whitespace characters\<close>
  "split_ws s = words_acc [] s"

fun join :: "string \<Rightarrow> string list \<Rightarrow> string" where
  \<comment> \<open>\<open>sep.join(ws)\<close>\<close>
  "join sep [] = []"
| "join sep [w] = w"
| "join sep (w # ws) = w @ sep @ join sep ws"

section \<open>Python sequences and exceptions\<close>

datatype py_error = ValueError | IndexError | AttributeError | LibraryError string

definition slice_index :: "nat \<Rightarrow> int \<Rightarrow> nat" where
  \<comment> \<open>a slice bound clamped into \<open>0..n\<close>; a negative bound counts from the end\<close>
  "slice_index n i = (if i < 0 then nat (max 0 (int n + i)) else min n (nat i))"

definition py_slice :: "'a list \<Rightarrow> int \<Rightarrow> int \<Rightarrow> 'a list" where
  \<comment> \<open>\<open>xs[i:j]\<close>\<close>
  "py_slice xs i j =
     (let a = slice_index (length xs) i; b = slice_index (length xs) j
      in take (b - a) (drop a xs))"

definition py_index :: "'a list \<Rightarrow> int \<Rightarrow> py_error + 'a" where
  \<comment> \<open>\<open>xs[i]\<close>: \<open>-1\<close> is the last element, and an index outside \<open>-n..n-1\<close> raises\<close>
  "py_index xs i =
     (if 0 \<le> i \<and> i < int (length xs) then Inr (xs ! nat i)
      else if i < 0 \<and> - int (length xs) \<le> i then Inr (xs ! nat (int (length xs) + i))
      else Inl IndexError)"

function range_up :: "int \<Rightarrow> int \<Rightarrow> int \<Rightarrow> int list" where
  "range_up i stop step = (if 0 < step \<and> i < stop then i # range_up (i + step) stop step else [])"
  by pat_completeness auto
termination
  by (relation "measure (\<lambda>(i, stop, step). nat (stop - i))") auto

function range_down :: "int \<Rightarrow> int \<Rightarrow> int \<Rightarrow> int list" where
  "range_down i stop step = (if step < 0 \<and> stop < i then i # range_down (i + step) stop step else [])"
  by pat_completeness auto
termination
  by (relation "measure (\<lambda>(i, stop, step). nat (i - stop))") auto

definition py_range :: "int \<Rightarrow> int \<Rightarrow> int \<Rightarrow> py_error + int list" where
  \<comment> \<open>\<open>range(start, stop, step)\<close>, enumerated; a zero step raises ValueError\<close>
  "py_range start stop step =
     (if step = 0 then Inl ValueError
      else if 0 < step then Inr (range_up start stop step)
      else Inr (range_down start stop step))"

section \<open>Chunker: \<open>split_text_into_chunks\<close>\<close>

fun collect_chunks :: "string list \<Rightarrow> int \<Rightarrow> int list \<Rightarrow> string list" where
  \<comment> \<open>the body of the \<open>for\<close> loop, run over the offsets of the range\<close>
  "collect_chunks words chunk_size [] = []"
| "collect_chunks words chunk_size (i # offsets) =
     (let chunk = join '' '' (py_slice words i (i + chunk_size))
      in (if strip chunk \<noteq> [] then [chunk] else []) @ collect_chunks words chunk_size offsets)"

definition split_text_into_chunks :: "string \<Rightarrow> int \<Rightarrow> int \<Rightarrow> py_error + string list" where
  "split_text_into_chunks text chunk_size overlap =
     (let words = split_ws text
      in case py_range 0 (int (length words)) (chunk_size - overlap) of
           Inl e \<Rightarrow> Inl e
         | Inr offsets \<Rightarrow> Inr (collect_chunks words chunk_size offsets))"

definition split_text_into_chunks_default :: "string \<Rightarrow> py_error + string list" where
  \<comment> \<open>the call with the default arguments \<open>chunk_size = 500\<close>, \<open>overlap = 50\<close>\<close>
  "split_text_into_chunks_default text = split_text_into_chunks text 500 50"

section \<open>Domain classification: \<open>detect_sport_type\<close>\<close>

definition cricket_terms :: "string list" where
  "cricket_terms = [''cricket'', ''wicket'', ''over'', ''ball'', ''bat'', ''bowl'', ''run'',
     ''century'', ''fifty'', ''innings'', ''stumps'', ''boundary'', ''six'', ''four'', ''lbw'',
     ''caught'', ''bowled'']"

definition football_terms :: "string list" where
  "football_terms = [''football'', ''soccer'', ''goal'', ''penalty'', ''corner'', ''free kick'',
     ''offside'', ''yellow card'', ''red card'', ''goalkeeper'', ''midfielder'', ''striker'',
     ''defender'']"

definition basketball_terms :: "string list" where
  "basketball_terms = [''basketball'', ''dunk'', ''three pointer'', ''free throw'', ''rebound'',
     ''assist'', ''steal'', ''block'', ''point guard'', ''center'', ''forward'']"

definition tennis_terms :: "string list" where
  "tennis_terms = [''tennis'', ''serve'', ''ace'', ''set'', ''game'', ''match point'', ''deuce'',
     ''advantage'', ''forehand'', ''backhand'', ''volley'']"

definition count_terms :: "string list \<Rightarrow> string \<Rightarrow> int" where
  \<comment> \<open>\<open>sum(1 for term in terms if term in text_lower)\<close>\<close>
  "count_terms terms text_lower =
     sum_list (map (\<lambda>term. 1) (filter (\<lambda>term. str_in term text_lower) terms))"

definition sport_counts :: "string \<Rightarrow> (string \<times> int) list" where
  \<comment> \<open>the dictionary \<open>counts\<close>, in insertion order\<close>
  "sport_counts text =
     (let text_lower = lower text
      in [(''cricket'', count_terms cricket_terms text_lower),
          (''football'', count_terms football_terms text_lower),
          (''basketball'', count_terms basketball_terms text_lower),
          (''tennis'', count_terms tennis_terms text_lower)])"

fun max_key :: "string \<times> int \<Rightarrow> (string \<times> int) list \<Rightarrow> string" where
  \<comment> \<open>\<open>max(counts, key=counts.get)\<close>: a later key replaces the running best only when
      its value is strictly greater\<close>
  "max_key best [] = fst best"
| "max_key best (kv # rest) = max_key (if snd best < snd kv then kv else best) rest"

fun max_value :: "int \<Rightarrow> (string \<times> int) list \<Rightarrow> int" where
  \<comment> \<open>\<open>max(counts.values())\<close>\<close>
  "max_value best [] = best"
| "max_value best (kv # rest) = max_value (if best < snd kv then snd kv else best) rest"

definition detect_sport_type :: "string \<Rightarrow> string" where
  "detect_sport_type text =
     (let counts = sport_counts text
      in if 0 < max_value (snd (hd counts)) (tl counts)
         then max_key (hd counts) (tl counts) else ''cricket'')"

section \<open>The external collaborators\<close>

text \<open>
  The embedding model, the vector index library, the article generator and the random
  number generator are not part of the repository. Their outcomes are parameters of the
  model: each call either raises (\<open>Inl\<close>) or returns (\<open>Inr\<close>). The element type \<open>'f\<close>
  of the arrays (float32 in the code) and the type \<open>'idx\<close> of the index object are left
  open.
\<close>

datatype 'f ndarray = NdArray (shape: "nat list") (cells: "'f list")

definition empty_array :: "'f ndarray" where
  \<comment> \<open>\<open>np.array([])\<close>: one dimension, no element\<close>
  "empty_array = NdArray [0] []"

record ('f, 'idx) env =
  encode :: "string list \<Rightarrow> py_error + 'f ndarray"
    \<comment> \<open>\<open>model.encode(texts, convert_to_numpy=True)\<close>\<close>
  index_flat_l2_add :: "nat \<Rightarrow> 'f ndarray \<Rightarrow> py_error + 'idx"
    \<comment> \<open>\<open>faiss.IndexFlatL2(dimension)\<close> followed by \<open>index.add(embeddings)\<close>\<close>
  index_search :: "'idx \<Rightarrow> 'f ndarray \<Rightarrow> int \<Rightarrow> py_error + ('f ndarray \<times> int list list)"
    \<comment> \<open>\<open>faiss_index.search(query_embedding, k)\<close>: the distances and the indices\<close>
  generate_article :: "string \<Rightarrow> py_error + string"
  extract_star_players :: "string \<Rightarrow> py_error + string list"
  extract_mock_star_players :: "string \<Rightarrow> string list"
    \<comment> \<open>the names found by the pattern rules, padded by \<open>random.sample\<close>\<close>
  random_choice :: "string list \<Rightarrow> string"
    \<comment> \<open>\<open>random.choice\<close> on a non-empty list\<close>
  api_token :: "string option"
    \<comment> \<open>\<open>os.environ.get('HUGGINGFACE_API_TOKEN')\<close>\<close>

section \<open>Embedder and index: \<open>create_embeddings\<close>, \<open>build_faiss_index\<close>\<close>

definition create_embeddings :: "('f, 'idx) env \<Rightarrow> string list \<Rightarrow> 'f ndarray" where
  "create_embeddings e chunks =
     (case encode e chunks of
        Inr embeddings \<Rightarrow> embeddings
      | Inl exc \<Rightarrow> empty_array)"

definition build_faiss_index :: "('f, 'idx) env \<Rightarrow> 'f ndarray \<Rightarrow> 'idx option" where
  "build_faiss_index e embeddings =
     (case py_index (shape embeddings) 1 of
        Inl exc \<Rightarrow> None
      | Inr dimension \<Rightarrow>
          (case index_flat_l2_add e dimension embeddings of
             Inl exc \<Rightarrow> None
           | Inr index \<Rightarrow> Some index))"

section \<open>Retriever: \<open>get_relevant_chunks\<close>\<close>

fun retrieve_loop :: "string list \<Rightarrow> int list \<Rightarrow> string list \<Rightarrow> py_error + string list" where
  \<comment> \<open>\<open>for idx in indices[0]: if idx < len(chunks): relevant_chunks.append(chunks[idx])\<close>\<close>
  "retrieve_loop chunks [] relevant_chunks = Inr relevant_chunks"
| "retrieve_loop chunks (idx # rest) relevant_chunks =
     (if idx < int (length chunks)
      then (case py_index chunks idx of
              Inl exc \<Rightarrow> Inl exc
            | Inr chunk \<Rightarrow> retrieve_loop chunks rest (relevant_chunks @ [chunk]))
      else retrieve_loop chunks rest relevant_chunks)"

definition retrieve :: "('f, 'idx) env \<Rightarrow> string \<Rightarrow> 'idx option \<Rightarrow> string list \<Rightarrow> int
                          \<Rightarrow> py_error + string list" where
  \<comment> \<open>the body of the \<open>try\<close> block of \<open>get_relevant_chunks\<close>\<close>
  "retrieve e query faiss_index chunks k =
     (case encode e [query] of
        Inl exc \<Rightarrow> Inl exc
      | Inr query_embedding \<Rightarrow>
          (case faiss_index of
             None \<Rightarrow> Inl AttributeError
           | Some index \<Rightarrow>
               (case index_search e index query_embedding k of
                  Inl exc \<Rightarrow> Inl exc
                | Inr (distances, indices) \<Rightarrow>
                    (case py_index indices 0 of
                       Inl exc \<Rightarrow> Inl exc
                     | Inr row \<Rightarrow> retrieve_loop chunks row []))))"

definition get_relevant_chunks :: "('f, 'idx) env \<Rightarrow> string \<Rightarrow> 'idx option \<Rightarrow> string list \<Rightarrow> int
                                     \<Rightarrow> string list" where
  \<comment> \<open>\<open>except Exception: return []\<close>\<close>
  "get_relevant_chunks e query faiss_index chunks k =
     (case retrieve e query faiss_index chunks k of
        Inl exc \<Rightarrow> []
      | Inr relevant_chunks \<Rightarrow> relevant_chunks)"

section \<open>Fallback composer: \<open>generate_mock_chat_response\<close>\<close>

definition any_in :: "string list \<Rightarrow> string \<Rightarrow> bool" where
  \<comment> \<open>\<open>any(word in s for word in words)\<close>\<close>
  "any_in words s = list_ex (\<lambda>word. str_in word s) words"

definition is_digit :: "char \<Rightarrow> bool" where
  "is_digit c = (48 \<le> (of_char c :: nat) \<and> (of_char c :: nat) \<le> 57)"

fun is_number_token :: "string \<Rightarrow> bool" where
  \<comment> \<open>\<open>re.match(r'\d+[-/]?\d*', word)\<close>: the match is anchored at the start and needs one
      digit, everything after it is optional\<close>
  "is_number_token [] = False"
| "is_number_token (c # cs) = is_digit c"

definition first_sentence :: "string \<Rightarrow> string" where
  \<comment> \<open>\<open>context.split('.')[0]\<close>\<close>
  "first_sentence context = takeWhile (\<lambda>c. c \<noteq> CHR ''.'') context"

definition generate_mock_chat_response :: "('f, 'idx) env \<Rightarrow> string \<Rightarrow> string list \<Rightarrow> string" where
  "generate_mock_chat_response e query relevant_chunks =
     (let context = join '' '' (take 2 relevant_chunks);
          query_lower = lower query;
          sport_type = detect_sport_type context;
          extracted_players = extract_mock_star_players e context;
          context_words = split_ws context;
          numbers = filter is_number_token context_words
      in
      if any_in [''player'', ''who'', ''name'', ''star'', ''performer'', ''captain'', ''batsman'',
                 ''bowler''] query_lower
      then (if extracted_players \<noteq> [] \<and>
               \<not> list_all (\<lambda>name. name \<in> set [''Rahul Sharma'', ''Virat Patel'', ''Rohit Singh''])
                    extracted_players
            then (if length extracted_players = 1
                  then ''Key player: '' @ hd extracted_players
                  else ''Star players: '' @ join '', '' (take 2 extracted_players))
            else (if sport_type = ''cricket''
                  then ''Key performers showed excellent batting and bowling skills.''
                  else if sport_type = ''football''
                  then ''Standout players controlled midfield and created chances.''
                  else if sport_type = ''basketball''
                  then ''Top scorers dominated with precise shooting.''
                  else ''Multiple players delivered outstanding performances.''))
      else if any_in [''score'', ''result'', ''runs'', ''goals'', ''points'', ''final''] query_lower
      then (if numbers \<noteq> []
            then (if sport_type = ''cricket''
                  then ''Match score: '' @ random_choice e numbers @ '' runs. Close contest.''
                  else if sport_type = ''football''
                  then ''Final score: '' @ random_choice e numbers @ ''. Well-contested match.''
                  else if sport_type = ''basketball''
                  then ''Final points: '' @ random_choice e numbers @ ''. High-scoring game.''
                  else ''Final result: '' @ random_choice e numbers @ ''. Competitive match.'')
            else ''Close contest with competitive scoring throughout.'')
      else if any_in [''best'', ''top'', ''highest'', ''most'', ''outstanding'', ''stat'',
                      ''performance''] query_lower
      then (if extracted_players \<noteq> [] \<and> numbers \<noteq> []
            then ''Top performer: '' @ hd extracted_players @ '' with '' @ random_choice e numbers
                   @ ''.''
            else if extracted_players \<noteq> []
            then ''Outstanding performance by '' @ hd extracted_players @ ''.''
            else (if sport_type = ''cricket''
                  then ''Excellent batting and bowling statistics recorded.''
                  else if sport_type = ''football''
                  then ''Strong attacking and defensive metrics.''
                  else if sport_type = ''basketball''
                  then ''High shooting percentages and rebounds.''
                  else ''Impressive performance statistics across the board.''))
      else if any_in [''summary'', ''analysis'', ''review'', ''highlight'', ''key'', ''important'']
                query_lower
      then (if sport_type = ''cricket''
            then ''Well-balanced contest with excellent batting, bowling, and fielding displays.''
            else if sport_type = ''football''
            then ''Tactical battle with good attacking play and solid defensive work.''
            else if sport_type = ''basketball''
            then ''Fast-paced game with excellent shooting and strong rebounding.''
            else ''Competitive match with high-quality performances from both teams.'')
      else if sport_type = ''cricket'' \<and>
              any_in [''wicket'', ''catch'', ''boundary'', ''six'', ''four'', ''over'', ''innings'']
                query_lower
      then ''Exciting cricket action with boundaries, wickets, and spectacular catches.''
      else if sport_type = ''football'' \<and>
              any_in [''goal'', ''assist'', ''penalty'', ''corner'', ''foul'', ''card''] query_lower
      then ''Dynamic football with strategic plays and decisive moments.''
      else if sport_type = ''basketball'' \<and>
              any_in [''basket'', ''dunk'', ''three'', ''rebound'', ''assist'', ''steal''] query_lower
      then ''High-energy basketball with impressive shooting and athletic plays.''
      else if any_in [''when'', ''time'', ''period'', ''minute'', ''first'', ''second'', ''half'']
                query_lower
      then (if sport_type = ''cricket''
            then ''Key moments spread across both innings.''
            else if sport_type = ''football''
            then ''Important events in both halves.''
            else if sport_type = ''basketball''
            then ''Crucial plays throughout all quarters.''
            else ''Significant moments distributed across the match.'')
      else if any_in [''team'', ''strategy'', ''tactic'', ''formation'', ''captain'', ''coach'']
                query_lower
      then (if sport_type = ''cricket''
            then ''Well-planned team strategy with effective field placements.''
            else if sport_type = ''football''
            then ''Strategic formations and tactical substitutions.''
            else if sport_type = ''basketball''
            then ''Effective team coordination and play execution.''
            else ''Strong team performance with good strategic decisions.'')
      else if startswith query_lower ''what''
      then (if str_in ''happened'' query_lower
            then ''Exciting '' @ sport_type @ '' match with competitive play throughout.''
            else if str_in ''was'' query_lower
            then ''It was a well-contested '' @ sport_type @ '' encounter.''
            else if context \<noteq> []
            then ''Key match details: '' @ take 60 context @ ''...''
            else ''Competitive match with good performances.'')
      else if startswith query_lower ''how''
      then (if str_in ''did'' query_lower
            then ''Through skillful play and strategic execution.''
            else if str_in ''many'' query_lower
            then ''Multiple '' @ (if sport_type = ''cricket'' then ''runs''
                                  else if sport_type = ''football'' then ''goals'' else ''points'')
                   @ '' scored.''
            else ''Excellent execution of game plans by both teams.'')
      else if startswith query_lower ''why''
      then ''Due to superior strategy and individual performances.''
      else if startswith query_lower ''where''
      then ''At the home ground with excellent playing conditions.''
      else if any_in [''hello'', ''hi'', ''hey''] query_lower
      then ''Hello! I can help with questions about this '' @ sport_type @ '' match.''
      else if any_in [''thank'', ''thanks''] query_lower
      then ''You'' @ [CHR 0x27] @ ''re welcome! Feel free to ask more about the match.''
      else if any_in [''good'', ''great'', ''excellent''] query_lower
      then ''Yes, it was an excellent match with quality performances!''
      else (if strip context \<noteq> []
            then ''From the match: '' @ first_sentence context @ ''...''
            else ''Please upload a match PDF to get specific insights.''))"

definition placeholder_token :: string where
  "placeholder_token = ''hf_XXXXXXXXXXXXXXXXXXXXXXXXXXXXXXXXXXXXXXXX''"

definition mock_mode :: "('f, 'idx) env \<Rightarrow> bool" where
  \<comment> \<open>\<open>not api_token or api_token == 'hf_XXX...'\<close>\<close>
  "mock_mode e =
     (case api_token e of
        None \<Rightarrow> True
      | Some token \<Rightarrow> token = [] \<or> token = placeholder_token)"

definition call_huggingface_api :: "('f, 'idx) env \<Rightarrow> string \<Rightarrow> string" where
  "call_huggingface_api e prompt =
     (if mock_mode e
      then ''MOCK_RESPONSE: This is a test response. Please configure your HuggingFace API token for real AI responses.''
      else ''Error: API token appears to be invalid. Please check your token at https://huggingface.co/settings/tokens'')"

definition generate_chat_response :: "('f, 'idx) env \<Rightarrow> string \<Rightarrow> string list \<Rightarrow> string" where
  "generate_chat_response e query relevant_chunks =
     (if mock_mode e then generate_mock_chat_response e query relevant_chunks
      else (let context = join [CHR 0x0A, CHR 0x0A] (take 3 relevant_chunks);
                result = call_huggingface_api e
                   (''Answer this question based on the match data: '' @ query
                      @ [CHR 0x0A, CHR 0x0A] @ ''Match data: '' @ context)
            in if startswith result ''Error:'' \<or> startswith result ''MOCK_RESPONSE:''
               then generate_mock_chat_response e query relevant_chunks
               else result))"

section \<open>Session state and the routes: \<open>upload_file\<close>, \<open>chat\<close>, \<open>clear_data\<close>\<close>

record ('f, 'idx) processed_data =
  article :: "string option"
  star_players :: "string list"
  faiss_index :: "'idx option"
  chunks :: "string list"
  embeddings :: "'f ndarray option"

definition initial_data :: "('f, 'idx) processed_data" where
  \<comment> \<open>the module-level dictionary at start-up\<close>
  "initial_data =
     \<lparr>article = None, star_players = [], faiss_index = None, chunks = [], embeddings = None\<rparr>"

record upload_request =
  file_present :: bool
    \<comment> \<open>\<open>'file' in request.files\<close>\<close>
  file_name :: string
  file_size :: nat
  pdf_text :: "py_error + string"
    \<comment> \<open>what PyMuPDF reads from the saved file: the text of all pages, or an exception\<close>

definition ALLOWED_EXTENSIONS :: "string set" where
  "ALLOWED_EXTENSIONS = {''pdf''}"

definition MAX_FILE_SIZE :: nat where
  "MAX_FILE_SIZE = 16 * 1024 * 1024"

definition allowed_file :: "string \<Rightarrow> bool" where
  \<comment> \<open>\<open>'.' in filename and filename.rsplit('.', 1)[1].lower() in ALLOWED_EXTENSIONS\<close>\<close>
  "allowed_file filename =
     (CHR ''.'' \<in> set filename \<and>
      lower (rev (takeWhile (\<lambda>c. c \<noteq> CHR ''.'') (rev filename))) \<in> ALLOWED_EXTENSIONS)"

definition extract_text_from_pdf :: "py_error + string \<Rightarrow> string" where
  "extract_text_from_pdf pages =
     (case pages of
        Inr text \<Rightarrow> strip text
      | Inl exc \<Rightarrow> [])"

fun exception_text :: "py_error \<Rightarrow> string" where
  \<comment> \<open>\<open>str(e)\<close>\<close>
  "exception_text ValueError = ''range() arg 3 must not be zero''"
| "exception_text IndexError = ''list index out of range''"
| "exception_text AttributeError =
     [CHR 0x27] @ ''NoneType'' @ [CHR 0x27] @ '' object has no attribute '' @ [CHR 0x27]
       @ ''search'' @ [CHR 0x27]"
| "exception_text (LibraryError message) = message"

type_synonym flash = "string \<times> string"

definition processing_failed :: "py_error \<Rightarrow> flash list" where
  \<comment> \<open>the handler's \<open>except Exception\<close> branch, reached after the progress message\<close>
  "processing_failed exc =
     [(''Processing PDF...'', ''info''),
      (''Error processing file: '' @ exception_text exc, ''error'')]"

definition upload_file :: "('f, 'idx) env \<Rightarrow> upload_request \<Rightarrow> ('f, 'idx) processed_data
                             \<Rightarrow> ('f, 'idx) processed_data \<times> flash list" where
  \<comment> \<open>the new session state and the messages flashed; saving and removing the uploaded
      file are not modelled\<close>
  "upload_file e request data =
     (if \<not> file_present request then (data, [(''No file selected'', ''error'')])
      else if file_name request = [] then (data, [(''No file selected'', ''error'')])
      else if allowed_file (file_name request)
      then (if MAX_FILE_SIZE < file_size request
            then (data, [(''File too large. Maximum size is 16MB'', ''error'')])
            else (let text = extract_text_from_pdf (pdf_text request)
                  in if strip text = []
                     then (data, [(''Processing PDF...'', ''info''),
                                  (''Could not extract text from PDF'', ''error'')])
                     else (case split_text_into_chunks_default text of
                             Inl exc \<Rightarrow> (data, processing_failed exc)
                           | Inr new_chunks \<Rightarrow>
                               (let new_embeddings = create_embeddings e new_chunks;
                                    new_index = build_faiss_index e new_embeddings
                                in case generate_article e text of
                                     Inl exc \<Rightarrow> (data, processing_failed exc)
                                   | Inr new_article \<Rightarrow>
                                       (case extract_star_players e text of
                                          Inl exc \<Rightarrow> (data, processing_failed exc)
                                        | Inr new_players \<Rightarrow>
                                            (\<lparr>article = Some new_article,
                                              star_players = new_players,
                                              faiss_index = new_index,
                                              chunks = new_chunks,
                                              embeddings = Some new_embeddings\<rparr>,
                                             [(''Processing PDF...'', ''info''),
                                              (''PDF processed successfully!'', ''success'')]))))))
      else (data, [(''Invalid file type. Please upload a PDF file.'', ''error'')]))"

datatype chat_reply = Response string | Failure string nat

definition chat :: "('f, 'idx) env \<Rightarrow> string \<Rightarrow> ('f, 'idx) processed_data \<Rightarrow> chat_reply" where
  \<comment> \<open>\<open>posted\<close> is \<open>data.get('query', '')\<close>; an index object, when there is one, is truthy\<close>
  "chat e posted data =
     (let query = strip posted
      in if query = [] then Failure ''Please enter a question'' 400
         else if faiss_index data = None \<or> chunks data = []
         then Failure ''Please upload a PDF first'' 400
         else Response (generate_chat_response e query
                          (get_relevant_chunks e query (faiss_index data) (chunks data) 5)))"

definition clear_data :: "('f, 'idx) processed_data \<Rightarrow> ('f, 'idx) processed_data" where
  "clear_data data =
     data\<lparr>article := None, star_players := [], faiss_index := None, chunks := [],
          embeddings := None\<rparr>"

section \<open>Two sample environments\<close>

definition model_down :: "(int, nat) env" where
  \<comment> \<open>the embedding model raises on every call; everything else works\<close>
  "model_down =
     \<lparr>encode = (\<lambda>texts. Inl (LibraryError ''model unavailable'')),
      index_flat_l2_add = (\<lambda>dimension vectors. Inr 0),
      index_search = (\<lambda>index query k. Inr (NdArray [1, 0] [], [[]])),
      generate_article = (\<lambda>text. Inr (''Report: '' @ text)),
      extract_star_players = (\<lambda>text. Inr [''Virat Kohli'', ''Joe Root'', ''Steve Smith'']),
      extract_mock_star_players = (\<lambda>text. [''Virat Kohli'', ''Joe Root'', ''Steve Smith'']),
      random_choice = hd,
      api_token = None\<rparr>"

definition two_vectors :: "(int, nat) env" where
  \<comment> \<open>an index of two vectors asked for five neighbours: the library fills the missing
      places of the answer with the index \<open>-1\<close>\<close>
  "two_vectors =
     model_down
       \<lparr>encode := (\<lambda>texts. Inr (NdArray [length texts, 1] (map (\<lambda>t. 0) texts))),
        index_search := (\<lambda>index query k. Inr (NdArray [1, 5] [0, 0, 0, 0, 0], [[0, 1, - 1, - 1, - 1]]))\<rparr>"

definition previous_session :: "(int, nat) processed_data" where
  \<comment> \<open>the state left by an earlier, successful ingest\<close>
  "previous_session =
     \<lparr>article = Some ''Report: Australia won by 3 wickets'',
      star_players = [''Steve Smith''],
      faiss_index = Some 7,
      chunks = [''Australia won by 3 wickets''],
      embeddings = Some (NdArray [1, 1] [3])\<rparr>"

definition match_report :: upload_request where
  \<comment> \<open>a well-formed upload: a small PDF with one line of text\<close>
  "match_report =
     \<lparr>file_present = True, file_name = ''match.pdf'', file_size = 2048,
      pdf_text = Inr ''India won by 5 runs''\<rparr>"

section \<open>Specification-level notions\<close>

definition sliding_windows :: "'a list \<Rightarrow> nat \<Rightarrow> nat \<Rightarrow> 'a list list" where
  \<comment> \<open>the windows of \<open>width\<close> tokens at the offsets \<open>0, stride, 2 * stride, ...\<close> below
      the token count\<close>
  "sliding_windows xs width stride =
     map (\<lambda>k. take width (drop (k * stride) xs)) [0 ..< (length xs + stride - 1) div stride]"

definition is_word :: "string \<Rightarrow> bool" where
  \<comment> \<open>a token: non-empty and free of whitespace\<close>
  "is_word w = (w \<noteq> [] \<and> list_all (\<lambda>c. \<not> is_space c) w)"

section \<open>Substrings and keyword counts\<close>

lemma startswith_iff: "startswith s p \<longleftrightarrow> (\<exists>r. s = p @ r)"
  by (induction s p rule: startswith.induct) auto

lemma str_in_iff: "str_in t s \<longleftrightarrow> (\<exists>pre post. s = pre @ t @ post)"
proof (induction s)
  case Nil
  show ?case by auto
next
  case (Cons c cs)
  show ?case
  proof
    assume "str_in t (c # cs)"
    then consider "startswith (c # cs) t" | "str_in t cs" by auto
    then show "\<exists>pre post. c # cs = pre @ t @ post"
    proof cases
      case 1
      then obtain r where "c # cs = t @ r" by (auto simp: startswith_iff)
      then have "c # cs = [] @ t @ r" by simp
      then show ?thesis by blast
    next
      case 2
      then obtain pre post where "cs = pre @ t @ post" using Cons.IH by auto
      then have "c # cs = (c # pre) @ t @ post" by simp
      then show ?thesis by blast
    qed
  next
    assume "\<exists>pre post. c # cs = pre @ t @ post"
    then obtain pre post where e: "c # cs = pre @ t @ post" by blast
    show "str_in t (c # cs)"
    proof (cases pre)
      case Nil
      with e have "startswith (c # cs) t" by (auto simp: startswith_iff)
      then show ?thesis by simp
    next
      case (Cons a pre')
      with e have "cs = pre' @ t @ post" by simp
      then have "str_in t cs" using Cons.IH by blast
      then show ?thesis by simp
    qed
  qed
qed

lemma count_terms_card:
  assumes "distinct terms"
  shows "count_terms terms s = int (card {t \<in> set terms. str_in t s})"
proof -
  have "sum_list (map (\<lambda>term. 1::int) xs) = int (length xs)" for xs :: "string list"
    by (induction xs) auto
  then have "count_terms terms s = int (length (filter (\<lambda>t. str_in t s) terms))"
    by (simp add: count_terms_def)
  also have "length (filter (\<lambda>t. str_in t s) terms) = card {t \<in> set terms. str_in t s}"
    using assms by (simp add: distinct_length_filter Int_def conj_commute)
  finally show ?thesis .
qed

lemma distinct_terms:
  "distinct cricket_terms" "distinct football_terms" "distinct basketball_terms" "distinct tennis_terms"
  by (simp_all add: cricket_terms_def football_terms_def basketball_terms_def tennis_terms_def)

lemma count_terms_nonneg: "0 \<le> count_terms terms s"
proof -
  have "0 \<le> sum_list (map (\<lambda>term. 1::int) xs)" for xs :: "string list"
    by (induction xs) auto
  then show ?thesis by (simp add: count_terms_def)
qed

lemma first_max_of_four:
  fixes c f b t :: int
  assumes "0 \<le> c" "0 \<le> f" "0 \<le> b" "0 \<le> t"
  shows "(let counts = [(''cricket'', c), (''football'', f), (''basketball'', b), (''tennis'', t)]
          in if 0 < max_value (snd (hd counts)) (tl counts)
             then max_key (hd counts) (tl counts) else ''cricket'') =
         (if f \<le> c \<and> b \<le> c \<and> t \<le> c then ''cricket''
          else if b \<le> f \<and> t \<le> f then ''football''
          else if t \<le> b then ''basketball'' else ''tennis'')"
  using assms by (auto simp: Let_def)

lemma detect_first_max:
  "detect_sport_type text =
     (let c = count_terms cricket_terms (lower text); f = count_terms football_terms (lower text);
          b = count_terms basketball_terms (lower text); t = count_terms tennis_terms (lower text)
      in if f \<le> c \<and> b \<le> c \<and> t \<le> c then ''cricket''
         else if b \<le> f \<and> t \<le> f then ''football''
         else if t \<le> b then ''basketball'' else ''tennis'')"
  unfolding detect_sport_type_def sport_counts_def Let_def
  using first_max_of_four [OF count_terms_nonneg count_terms_nonneg count_terms_nonneg count_terms_nonneg,
     of cricket_terms "lower text" football_terms "lower text" basketball_terms "lower text" tennis_terms "lower text"]
  unfolding Let_def .

section \<open>Ranges and slices\<close>

lemma chunks_nonpositive_stride:
  assumes "chunk_size \<le> overlap"
  shows "split_text_into_chunks text chunk_size overlap =
           (if overlap = chunk_size then Inl ValueError else Inr [])"
  using assms by (auto simp: split_text_into_chunks_def py_range_def Let_def)

lemma range_up_closed:
  assumes "0 < s"
  shows "range_up i n s = map (\<lambda>k. i + int k * s) [0 ..< nat ((n - i + s - 1) div s)]"
  using assms
proof (induction i n s rule: range_up.induct)
  case (1 i stop step)
  show ?case
  proof (cases "i < stop")
    case False
    then have "(stop - i + step - 1) div step \<le> (step - 1) div step"
      using 1(2) by (intro zdiv_mono1) auto
    then have "(stop - i + step - 1) div step \<le> 0"
      using 1(2) by (simp add: div_pos_pos_trivial)
    then show ?thesis using False by simp
  next
    case True
    let ?m = "nat ((stop - (i + step) + step - 1) div step)"
    have d: "(stop - i + step - 1) div step = (stop - (i + step) + step - 1) div step + 1"
    proof -
      have "stop - i + step - 1 = (stop - (i + step) + step - 1) + 1 * step" by simp
      then show ?thesis using 1(2) by (metis div_add_self2 mult_1 less_irrefl)
    qed
    have nn: "0 \<le> (stop - (i + step) + step - 1) div step"
      using True 1(2) by (simp add: pos_imp_zdiv_nonneg_iff)
    have n: "nat ((stop - i + step - 1) div step) = Suc ?m"
      using d nn by simp
    have ih: "range_up (i + step) stop step = map (\<lambda>k. i + step + int k * step) [0 ..< ?m]"
      using 1 True by simp
    have "range_up i stop step = i # range_up (i + step) stop step"
      using True 1(2) by simp
    also have "\<dots> = i # map (\<lambda>k. i + int (Suc k) * step) [0 ..< ?m]"
      using ih by (simp add: algebra_simps)
    also have "\<dots> = map (\<lambda>k. i + int k * step) (0 # map Suc [0 ..< ?m])"
      by (simp add: comp_def)
    also have "0 # map Suc [0 ..< ?m] = [0 ..< Suc ?m]"
      by (simp add: upt_conv_Cons map_Suc_upt del: upt_Suc)
    finally show ?thesis using n by simp
  qed
qed

lemma py_slice_window:
  assumes "0 \<le> i" "0 \<le> c"
  shows "py_slice xs i (i + c) = take (nat c) (drop (nat i) xs)"
proof (cases "nat i \<le> length xs")
  case True
  have "nat (i + c) = nat i + nat c"
    using assms by (simp add: nat_add_distrib)
  then have m: "min (length xs) (nat (i + c)) - nat i = min (length xs - nat i) (nat c)"
    using True by arith
  have "take (min (length (drop (nat i) xs)) (nat c)) (drop (nat i) xs) = take (nat c) (drop (nat i) xs)"
    by (cases "nat c \<le> length (drop (nat i) xs)") (simp_all add: min_def)
  then show ?thesis using assms True m
    by (simp add: py_slice_def slice_index_def Let_def min_absorb2)
next
  case False
  then show ?thesis using assms by (simp add: py_slice_def slice_index_def Let_def)
qed

section \<open>Words, joining and stripping\<close>

lemma strip_empty_iff: "strip s = [] \<longleftrightarrow> list_all is_space s"
proof
  assume "strip s = []"
  then have "\<forall>c \<in> set (dropWhile is_space s). is_space c"
    by (simp add: strip_def dropWhile_eq_Nil_conv)
  then have "dropWhile is_space s = []"
    using hd_dropWhile [of is_space s] by (cases "dropWhile is_space s") auto
  then show "list_all is_space s"
    by (simp add: dropWhile_eq_Nil_conv list_all_iff)
next
  assume "list_all is_space s"
  then show "strip s = []"
    by (auto simp: strip_def list_all_iff dest: set_dropWhileD)
qed

lemma words_acc_are_words:
  "list_all (\<lambda>c. \<not> is_space c) cur \<Longrightarrow> list_all is_word (words_acc cur s)"
  by (induction s arbitrary: cur) (auto simp: is_word_def)

lemma split_ws_are_words: "list_all is_word (split_ws s)"
  by (simp add: split_ws_def words_acc_are_words)

lemma words_acc_append:
  "list_all (\<lambda>c. \<not> is_space c) w \<Longrightarrow> words_acc cur (w @ rest) = words_acc (cur @ w) rest"
  by (induction w arbitrary: cur) auto

lemma space_is_space: "is_space (CHR '' '')"
  by (simp add: is_space_def)

lemma split_ws_join:
  "list_all is_word ws \<Longrightarrow> split_ws (join '' '' ws) = ws"
proof (induction ws)
  case Nil
  show ?case by (simp add: split_ws_def)
next
  case (Cons w vs)
  then have w: "w \<noteq> []" "list_all (\<lambda>c. \<not> is_space c) w"
    by (simp_all add: is_word_def)
  have r: "list_all is_word vs"
    using Cons.prems by simp
  show ?case
  proof (cases vs)
    case Nil
    have "words_acc [] (w @ []) = words_acc ([] @ w) []"
      using w(2) by (rule words_acc_append)
    then show ?thesis using Nil w(1) by (simp add: split_ws_def)
  next
    case (Cons v us)
    have "split_ws (join '' '' (w # vs)) = words_acc [] (w @ CHR '' '' # join '' '' vs)"
      using Cons by (simp add: split_ws_def)
    also have "\<dots> = words_acc ([] @ w) (CHR '' '' # join '' '' vs)"
      using w(2) by (rule words_acc_append)
    also have "\<dots> = w # split_ws (join '' '' vs)"
      using w(1) space_is_space by (simp add: split_ws_def)
    finally show ?thesis using Cons.IH r by simp
  qed
qed

lemma join_blank_iff:
  assumes "list_all is_word ws"
  shows "strip (join '' '' ws) = [] \<longleftrightarrow> ws = []"
proof (cases ws)
  case Nil
  then show ?thesis by (simp add: strip_def)
next
  case (Cons w vs)
  with assms obtain c cs where w: "w = c # cs" "\<not> is_space c"
    by (cases w) (auto simp: is_word_def)
  have "c \<in> set (join '' '' (w # vs))"
    using w(1) by (cases vs) auto
  then have "\<not> list_all is_space (join '' '' (w # vs))"
    using w(2) by (auto simp: list_all_iff)
  then show ?thesis using Cons by (simp add: strip_empty_iff)
qed

section \<open>The chunker\<close>

lemma window_words:
  "list_all is_word ws \<Longrightarrow> list_all is_word (take c (drop i ws))"
  by (auto simp: list_all_iff dest: in_set_takeD in_set_dropD)

lemma collect_chunks_windows:
  assumes "list_all is_word ws" "0 \<le> c" "list_all (\<lambda>i. 0 \<le> i) offsets"
  shows "collect_chunks ws c offsets =
           map (join '' '') (filter (\<lambda>w. w \<noteq> [])
             (map (\<lambda>i. take (nat c) (drop (nat i) ws)) offsets))"
  using assms(3)
proof (induction offsets)
  case Nil
  show ?case by simp
next
  case (Cons i offsets)
  have s: "py_slice ws i (i + c) = take (nat c) (drop (nat i) ws)"
    using Cons.prems assms(2) by (simp add: py_slice_window)
  have b: "strip (join '' '' (take (nat c) (drop (nat i) ws))) = [] \<longleftrightarrow>
             take (nat c) (drop (nat i) ws) = []"
    using assms(1) by (intro join_blank_iff window_words)
  show ?case
    using Cons s b by (simp add: Let_def)
qed

lemma offsets_as_multiples:
  assumes "0 < s"
  shows "range_up 0 (int n) s = map (\<lambda>k. int (k * nat s)) [0 ..< (n + nat s - 1) div nat s]"
proof -
  have "int n + s - 1 = int (n + nat s - 1)"
    using assms by simp
  then have "(int n - 0 + s - 1) div s = int ((n + nat s - 1) div nat s)"
    using assms by (simp add: zdiv_int)
  then have "nat ((int n - 0 + s - 1) div s) = (n + nat s - 1) div nat s"
    by simp
  then show ?thesis
    using assms range_up_closed [OF assms, of 0 "int n"] by simp
qed

lemma chunks_windows:
  assumes "overlap < chunk_size" "0 \<le> chunk_size"
  shows "split_text_into_chunks text chunk_size overlap =
           Inr (map (join '' '') (filter (\<lambda>w. w \<noteq> [])
             (sliding_windows (split_ws text) (nat chunk_size) (nat (chunk_size - overlap)))))"
proof -
  let ?s = "chunk_size - overlap"
  let ?ws = "split_ws text"
  let ?offs = "map (\<lambda>k. int (k * nat ?s)) [0 ..< (length ?ws + nat ?s - 1) div nat ?s]"
  have r: "py_range 0 (int (length ?ws)) ?s = Inr ?offs"
    using assms(1) offsets_as_multiples [of ?s "length ?ws"] by (simp add: py_range_def)
  have "collect_chunks ?ws chunk_size ?offs =
          map (join '' '') (filter (\<lambda>w. w \<noteq> [])
            (map (\<lambda>i. take (nat chunk_size) (drop (nat i) ?ws)) ?offs))"
    using split_ws_are_words assms(2) by (rule collect_chunks_windows) (simp add: list_all_iff)
  also have "map (\<lambda>i. take (nat chunk_size) (drop (nat i) ?ws)) ?offs =
          sliding_windows ?ws (nat chunk_size) (nat ?s)"
    by (simp add: sliding_windows_def comp_def nat_mult_distrib)
  finally show ?thesis
    using r by (simp add: split_text_into_chunks_def Let_def)
qed

lemma chunk_word_count:
  assumes "list_all is_word ws"
  shows "list_all (\<lambda>c. length (split_ws c) \<le> n)
           (map (join '' '') (filter (\<lambda>w. w \<noteq> []) (sliding_windows ws n s)))"
proof -
  have "length (split_ws (join '' '' (take n (drop i ws)))) \<le> n" for i
    using split_ws_join [OF window_words [OF assms, of n i]] by simp
  then show ?thesis
    by (auto simp: list_all_iff sliding_windows_def)
qed

lemma single_window:
  assumes "0 < length ws" "length ws \<le> s" "length ws \<le> n"
  shows "sliding_windows ws n s = [ws]"
proof -
  have "0 < s" using assms by linarith
  have "(length ws + s - 1) div s = 1"
  proof -
    have "length ws + s - 1 = (length ws - 1) + 1 * s" using assms by linarith
    moreover have "(length ws - 1 + 1 * s) div s = 1 + (length ws - 1) div s"
      using \<open>0 < s\<close> by (subst div_mult_self1) auto
    ultimately have "(length ws + s - 1) div s = (length ws - 1) div s + 1"
      by simp
    moreover have "(length ws - 1) div s = 0" using assms by (intro div_less) linarith
    ultimately show ?thesis by simp
  qed
  then show ?thesis using assms by (simp add: sliding_windows_def)
qed

section \<open>Claims about the chunker\<close>

text \<open>
  C5 (as amended). With \<open>overlap \<ge> chunk_size\<close> the chunker never loops: a zero stride
  makes \<open>range\<close> raise ValueError, and a negative stride makes the range empty, so the
  empty chunk list is returned without any error.
\<close>

theorem split_text_into_chunks_nonpositive_stride:
  assumes "chunk_size \<le> overlap"
  shows "split_text_into_chunks text chunk_size overlap =
           (if overlap = chunk_size then Inl ValueError else Inr [])"
  using assms by (rule chunks_nonpositive_stride)

theorem split_text_into_chunks_nonpositive_stride_witness:
  "(2::int) \<le> 2 \<and> split_text_into_chunks ''a b'' 2 2 = Inl ValueError"
  using split_text_into_chunks_nonpositive_stride [of 2 2 "''a b''"] by simp

text \<open>
  C5 as stated fails: with \<open>chunk_size = 2\<close> and \<open>overlap = 3\<close> the call returns the empty
  chunk list instead of failing.
\<close>

theorem split_text_into_chunks_negative_stride_counterexample:
  "split_text_into_chunks ''a b'' 2 3 = Inr [] \<and>
   split_text_into_chunks ''a b'' 2 3 \<noteq> Inl ValueError"
  by (simp add: split_text_into_chunks_def py_range_def)

text \<open>
  C6 (as amended). For \<open>overlap < chunk_size\<close> and \<open>chunk_size \<ge> 0\<close> the chunker returns
  (it is a total function and the result is not an error) exactly the sliding windows of
  \<open>chunk_size\<close> tokens of the whitespace-split text at the offsets \<open>0, stride, 2 * stride, ...\<close>
  below the token count, empty windows dropped, each rejoined with single spaces; every
  returned chunk has at most \<open>chunk_size\<close> words; and a text with at least one word, fewer
  than \<open>chunk_size\<close> words and at most \<open>stride\<close> words yields exactly one chunk, the
  rejoined text.
\<close>

theorem split_text_into_chunks_sliding_windows:
  assumes "overlap < chunk_size" and "0 \<le> chunk_size"
  shows "split_text_into_chunks text chunk_size overlap =
           Inr (map (join '' '') (filter (\<lambda>w. w \<noteq> [])
             (sliding_windows (split_ws text) (nat chunk_size) (nat (chunk_size - overlap)))))
         \<and> (case split_text_into_chunks text chunk_size overlap of
              Inl e \<Rightarrow> False
            | Inr result \<Rightarrow> list_all (\<lambda>c. int (length (split_ws c)) \<le> chunk_size) result)
         \<and> (0 < length (split_ws text) \<and> int (length (split_ws text)) < chunk_size
              \<and> int (length (split_ws text)) \<le> chunk_size - overlap
            \<longrightarrow> split_text_into_chunks text chunk_size overlap = Inr [join '' '' (split_ws text)])"
proof (intro conjI impI)
  let ?ws = "split_ws text"
  let ?n = "nat chunk_size"
  let ?s = "nat (chunk_size - overlap)"
  show w: "split_text_into_chunks text chunk_size overlap =
           Inr (map (join '' '') (filter (\<lambda>w. w \<noteq> []) (sliding_windows ?ws ?n ?s)))"
    using assms by (rule chunks_windows)
  have "list_all (\<lambda>c. length (split_ws c) \<le> ?n)
          (map (join '' '') (filter (\<lambda>w. w \<noteq> []) (sliding_windows ?ws ?n ?s)))"
    using split_ws_are_words by (rule chunk_word_count)
  then have "list_all (\<lambda>c. int (length (split_ws c)) \<le> chunk_size)
          (map (join '' '') (filter (\<lambda>w. w \<noteq> []) (sliding_windows ?ws ?n ?s)))"
    using assms(2) by (auto simp: list_all_iff)
  then show "case split_text_into_chunks text chunk_size overlap of
              Inl e \<Rightarrow> False
            | Inr result \<Rightarrow> list_all (\<lambda>c. int (length (split_ws c)) \<le> chunk_size) result"
    by (simp add: w)
  assume h: "0 < length ?ws \<and> int (length ?ws) < chunk_size
              \<and> int (length ?ws) \<le> chunk_size - overlap"
  then have "sliding_windows ?ws ?n ?s = [?ws]"
    by (intro single_window) auto
  then show "split_text_into_chunks text chunk_size overlap = Inr [join '' '' ?ws]"
    using h by (simp add: w)
qed

theorem split_text_into_chunks_sliding_windows_witness:
  "(50::int) < 500 \<and> (0::int) \<le> 500 \<and>
   split_text_into_chunks_default ''Player John scored 50 runs. Player Mary scored 60 runs.'' =
     Inr [''Player John scored 50 runs. Player Mary scored 60 runs.'']"
proof -
  let ?t = "''Player John scored 50 runs. Player Mary scored 60 runs.''"
  have h: "(50::int) < 500" "(0::int) \<le> 500"
    by simp_all
  have w: "split_ws ?t = [''Player'', ''John'', ''scored'', ''50'', ''runs.'',
                          ''Player'', ''Mary'', ''scored'', ''60'', ''runs.'']"
    by (simp add: split_ws_def is_space_def)
  have "0 < length (split_ws ?t) \<and> int (length (split_ws ?t)) < 500
          \<and> int (length (split_ws ?t)) \<le> 500 - 50
        \<longrightarrow> split_text_into_chunks ?t 500 50 = Inr [join '' '' (split_ws ?t)]"
    using split_text_into_chunks_sliding_windows [OF h, of ?t] by blast
  then have "split_text_into_chunks ?t 500 50 = Inr [?t]"
    by (simp add: w)
  then show ?thesis
    using h by (simp add: split_text_into_chunks_default_def)
qed

text \<open>
  C6 as stated fails in three ways: a text with fewer than \<open>chunk_size\<close> words but more than
  \<open>stride\<close> words yields several chunks; the empty text yields no chunk at all; and with a
  negative \<open>chunk_size\<close> the slice bound counts from the end of the word list, so a chunk
  can have more than \<open>chunk_size\<close> words.
\<close>

theorem split_text_into_chunks_short_text_counterexample:
  "split_text_into_chunks ''a b c'' 5 4 = Inr [''a b c'', ''b c'', ''c''] \<and>
   split_text_into_chunks [] 500 50 = Inr [] \<and>
   split_text_into_chunks ''a b c'' (- 1) (- 3) = Inr [''a b'']"
  by (simp add: split_text_into_chunks_def split_ws_def py_range_def is_space_def py_slice_def
      slice_index_def strip_def)

section \<open>Claims about domain classification\<close>

text \<open>
  C8 (as amended). Domain classification returns the first category, in the order cricket,
  football, basketball, tennis, whose keyword-hit count over the lowercased text is the
  maximum: a strict maximum wins, all counts zero give cricket, and a tie goes to the
  earliest of the tied categories (to cricket only when cricket is among them). A text
  made of "wicket", "over" and "six" three times each and "goal" once classifies as cricket.
\<close>

theorem detect_sport_type_first_maximum:
  "detect_sport_type text =
     (let c = count_terms cricket_terms (lower text); f = count_terms football_terms (lower text);
          b = count_terms basketball_terms (lower text); t = count_terms tennis_terms (lower text)
      in if f \<le> c \<and> b \<le> c \<and> t \<le> c then ''cricket''
         else if b \<le> f \<and> t \<le> f then ''football''
         else if t \<le> b then ''basketball'' else ''tennis'')
   \<and> detect_sport_type ''Wicket over six. Wicket over six. Wicket over six. Goal'' = ''cricket''"
proof
  show "detect_sport_type text =
     (let c = count_terms cricket_terms (lower text); f = count_terms football_terms (lower text);
          b = count_terms basketball_terms (lower text); t = count_terms tennis_terms (lower text)
      in if f \<le> c \<and> b \<le> c \<and> t \<le> c then ''cricket''
         else if b \<le> f \<and> t \<le> f then ''football''
         else if t \<le> b then ''basketball'' else ''tennis'')"
    by (rule detect_first_max)
  show "detect_sport_type ''Wicket over six. Wicket over six. Wicket over six. Goal'' = ''cricket''"
    by code_simp
qed

text \<open>
  C8 as stated fails on a tie that does not involve cricket: "goal serve" has one football
  hit and one tennis hit and is classified as football, not as the default cricket.
\<close>

theorem detect_sport_type_tie_counterexample:
  "sport_counts ''goal serve'' =
     [(''cricket'', 0), (''football'', 1), (''basketball'', 0), (''tennis'', 1)] \<and>
   detect_sport_type ''goal serve'' = ''football'' \<and>
   detect_sport_type ''goal serve'' \<noteq> ''cricket''"
  by (simp add: detect_sport_type_def sport_counts_def count_terms_def lower_def lower_char_def
      cricket_terms_def football_terms_def basketball_terms_def tennis_terms_def)

text \<open>
  C10. Each category's count is the number of distinct terms of its vocabulary that occur
  as substrings of the lowercased text: a repeated keyword counts once, and a keyword inside
  a longer word ("over" in "coverage", "run" in "runner") counts.
\<close>

theorem sport_counts_distinct_substring_hits:
  "sport_counts text =
     map (\<lambda>(name, terms).
            (name, int (card {t \<in> set terms. \<exists>pre post. lower text = pre @ t @ post})))
       [(''cricket'', cricket_terms), (''football'', football_terms),
        (''basketball'', basketball_terms), (''tennis'', tennis_terms)]
   \<and> count_terms cricket_terms (lower ''Over over OVER'') = 1
   \<and> count_terms cricket_terms (lower ''coverage'') = 1
   \<and> count_terms cricket_terms (lower ''runner'') = 1"
proof (intro conjI)
  show "sport_counts text =
     map (\<lambda>(name, terms).
            (name, int (card {t \<in> set terms. \<exists>pre post. lower text = pre @ t @ post})))
       [(''cricket'', cricket_terms), (''football'', football_terms),
        (''basketball'', basketball_terms), (''tennis'', tennis_terms)]"
    by (simp add: sport_counts_def Let_def count_terms_card distinct_terms str_in_iff)
  show "count_terms cricket_terms (lower ''Over over OVER'') = 1"
    by code_simp
  show "count_terms cricket_terms (lower ''coverage'') = 1"
    by (simp add: count_terms_def lower_def lower_char_def cricket_terms_def)
  show "count_terms cricket_terms (lower ''runner'') = 1"
    by (simp add: count_terms_def lower_def lower_char_def cricket_terms_def)
qed

section \<open>Claims about ingest and the embedder\<close>

lemma match_report_accepted:
  "allowed_file ''match.pdf''" "\<not> MAX_FILE_SIZE < 2048"
  by (simp_all add: allowed_file_def ALLOWED_EXTENSIONS_def MAX_FILE_SIZE_def lower_def
      lower_char_def)

lemma match_report_text:
  "extract_text_from_pdf (Inr ''India won by 5 runs'') = ''India won by 5 runs''"
  "strip ''India won by 5 runs'' \<noteq> []"
  by (simp_all add: extract_text_from_pdf_def strip_def is_space_def)

lemma match_report_chunks:
  "split_text_into_chunks_default ''India won by 5 runs'' = Inr [''India won by 5 runs'']"
  by (simp add: split_text_into_chunks_default_def split_text_into_chunks_def split_ws_def
      py_range_def py_slice_def slice_index_def strip_def is_space_def)

lemma model_down_index:
  "create_embeddings model_down texts = NdArray [0] []"
  "build_faiss_index model_down (NdArray [0] []) = None"
  by (simp_all add: create_embeddings_def build_faiss_index_def empty_array_def py_index_def
      model_down_def)

lemma model_down_writers:
  "generate_article model_down text = Inr (''Report: '' @ text)"
  "extract_star_players model_down text = Inr [''Virat Kohli'', ''Joe Root'', ''Steve Smith'']"
  by (simp_all add: model_down_def)

text \<open>
  Whenever the handler does not report success it leaves the session state as it was:
  the state is assigned in one place, after every step has returned.
\<close>

lemma upload_file_reported_failure_keeps_state:
  assumes "(''PDF processed successfully!'', ''success'') \<notin> set (snd (upload_file e request data))"
  shows "fst (upload_file e request data) = data"
  using assms
  by (auto simp: upload_file_def Let_def split: if_splits sum.splits)

text \<open>
  But a failed index build is not a reported failure: \<open>build_faiss_index\<close> returns \<open>None\<close>
  and the handler stores it with the rest.
\<close>

lemma upload_file_stores_failed_index:
  assumes "file_present request" "file_name request \<noteq> []" "allowed_file (file_name request)"
    and "\<not> MAX_FILE_SIZE < file_size request"
    and "strip (extract_text_from_pdf (pdf_text request)) \<noteq> []"
    and "split_text_into_chunks_default (extract_text_from_pdf (pdf_text request)) = Inr new_chunks"
    and "build_faiss_index e (create_embeddings e new_chunks) = None"
    and "generate_article e (extract_text_from_pdf (pdf_text request)) = Inr new_article"
    and "extract_star_players e (extract_text_from_pdf (pdf_text request)) = Inr new_players"
  shows "upload_file e request data =
           (\<lparr>article = Some new_article, star_players = new_players, faiss_index = None,
             chunks = new_chunks, embeddings = Some (create_embeddings e new_chunks)\<rparr>,
            [(''Processing PDF...'', ''info''), (''PDF processed successfully!'', ''success'')])"
  using assms by (simp add: upload_file_def Let_def)

lemma clear_data_resets: "clear_data data = initial_data"
  by (simp add: clear_data_def initial_data_def)

text \<open>
  C1, evaluated where it fails. A session holds the result of an earlier ingest; a valid
  PDF is uploaded while the embedding model raises. \<open>create_embeddings\<close> swallows the
  exception, \<open>build_faiss_index\<close> fails on the empty array and returns \<open>None\<close>, and the
  handler stores everything: the old article, players, chunks and index are replaced, the
  index by \<open>None\<close>, and the upload is reported as a success.
\<close>

theorem upload_file_model_down_overwrites_session:
  "upload_file model_down match_report previous_session =
     (\<lparr>article = Some ''Report: India won by 5 runs'',
       star_players = [''Virat Kohli'', ''Joe Root'', ''Steve Smith''],
       faiss_index = None,
       chunks = [''India won by 5 runs''],
       embeddings = Some (NdArray [0] [])\<rparr>,
      [(''Processing PDF...'', ''info''), (''PDF processed successfully!'', ''success'')])
   \<and> fst (upload_file model_down match_report previous_session) \<noteq> previous_session"
proof -
  have u: "upload_file model_down match_report previous_session =
     (\<lparr>article = Some ''Report: India won by 5 runs'',
       star_players = [''Virat Kohli'', ''Joe Root'', ''Steve Smith''],
       faiss_index = None,
       chunks = [''India won by 5 runs''],
       embeddings = Some (NdArray [0] [])\<rparr>,
      [(''Processing PDF...'', ''info''), (''PDF processed successfully!'', ''success'')])"
    by (simp add: upload_file_def match_report_def match_report_accepted match_report_text
        match_report_chunks model_down_index model_down_writers Let_def)
  show ?thesis
    by (simp add: u) (simp add: previous_session_def)
qed

text \<open>
  C7 (as amended). When the embedding model raises, \<open>create_embeddings\<close> returns the empty
  one-dimensional array \<open>np.array([])\<close> as its result, and \<open>build_faiss_index\<close> applied to
  that array returns \<open>None\<close>: no index is built from it.
\<close>

theorem create_embeddings_model_raises:
  assumes "encode e texts = Inl exc"
  shows "create_embeddings e texts = NdArray [0] [] \<and>
         build_faiss_index e (create_embeddings e texts) = None"
  using assms
  by (simp add: create_embeddings_def build_faiss_index_def empty_array_def py_index_def)

theorem create_embeddings_model_raises_witness:
  "encode model_down [''India won by 5 runs''] = Inl (LibraryError ''model unavailable'') \<and>
   create_embeddings model_down [''India won by 5 runs''] = NdArray [0] [] \<and>
   build_faiss_index model_down (create_embeddings model_down [''India won by 5 runs'']) = None"
proof -
  have a: "encode model_down [''India won by 5 runs''] = Inl (LibraryError ''model unavailable'')"
    by (simp add: model_down_def)
  show ?thesis
    using a create_embeddings_model_raises [OF a] by blast
qed

text \<open>
  C7 as stated fails: with the model unavailable and an empty chunk list the embedder
  returns an array value, of shape \<open>(0,)\<close>, and not a failure.
\<close>

theorem create_embeddings_degenerate_counterexample:
  "create_embeddings model_down [] = NdArray [0] [] \<and>
   shape (create_embeddings model_down []) = [0]"
  by (simp add: model_down_index)

section \<open>Claims about retrieval and the query route\<close>

text \<open>
  The index \<open>-1\<close> passes the test of the loop and stands for the last chunk.
\<close>

lemma retrieve_loop_minus_one:
  assumes "cs \<noteq> []"
  shows "retrieve_loop cs (- 1 # rest) acc = retrieve_loop cs rest (acc @ [last cs])"
proof -
  have n: "0 < length cs"
    using assms by simp
  then have "nat (int (length cs) + - 1) = length cs - 1" and "- int (length cs) \<le> - 1"
    by linarith+
  then have "py_index cs (- 1) = Inr (last cs)"
    using assms by (simp add: py_index_def last_conv_nth)
  then show ?thesis
    using n by simp
qed

text \<open>
  C2, evaluated where it fails. The index holds two vectors and five neighbours are asked
  for, so the answer carries the index \<open>-1\<close> three times. The loop only tests
  \<open>idx < len(chunks)\<close>, which \<open>-1\<close> passes, and \<open>chunks[-1]\<close> is the last chunk: it is
  returned three more times instead of being skipped. An index below \<open>-len(chunks)\<close>
  raises inside the loop.
\<close>

theorem get_relevant_chunks_padding_index_resolves_last_chunk:
  "get_relevant_chunks two_vectors ''who scored?'' (Some 0) [''first chunk'', ''second chunk''] 5 =
     [''first chunk'', ''second chunk'', ''second chunk'', ''second chunk'', ''second chunk'']
   \<and> retrieve_loop [''first chunk'', ''second chunk''] [0, - 3] [] = Inl IndexError"
  by code_simp

text \<open>
  C4 (as amended). For every query that is not blank, posted while the session has no
  index or no chunks, the query route fails at once with the message "Please upload a PDF
  first" and status 400; neither retrieval nor answer generation runs.
\<close>

theorem chat_before_ingest:
  assumes "strip posted \<noteq> []" and "faiss_index data = None \<or> chunks data = []"
  shows "chat e posted data = Failure ''Please upload a PDF first'' 400"
  using assms by (simp add: chat_def Let_def)

theorem chat_before_ingest_witness:
  "strip ''who scored?'' \<noteq> [] \<and>
   (faiss_index (initial_data :: (int, nat) processed_data) = None \<or>
    chunks (initial_data :: (int, nat) processed_data) = []) \<and>
   chat model_down ''who scored?'' initial_data = Failure ''Please upload a PDF first'' 400"
proof -
  have a: "strip ''who scored?'' \<noteq> []"
    by (simp add: strip_def is_space_def)
  have b: "faiss_index (initial_data :: (int, nat) processed_data) = None \<or>
           chunks (initial_data :: (int, nat) processed_data) = []"
    by (simp add: initial_data_def)
  show ?thesis
    using a b chat_before_ingest [OF a b, of model_down] by simp
qed

text \<open>
  C4 as stated fails for a blank query: before any ingest it is answered with "Please
  enter a question", because the query is tested before the session state.
\<close>

theorem chat_blank_query_counterexample:
  "chat model_down ''  '' initial_data = Failure ''Please enter a question'' 400 \<and>
   chat model_down ''  '' initial_data \<noteq> Failure ''Please upload a PDF first'' 400"
  by (simp add: chat_def strip_def is_space_def)

section \<open>Claims about the fallback composer\<close>

text \<open>
  C9 (as amended). For every query that contains a score keyword and none of the player
  keywords, which are tested first, posed against a context without number tokens, the
  fallback composer returns "Close contest with competitive scoring throughout.", whatever
  the sport, the extracted players and the random choices are.
\<close>

theorem score_query_without_numbers:
  assumes "any_in [''score'', ''result'', ''runs'', ''goals'', ''points'', ''final''] (lower query)"
    and "\<not> any_in [''player'', ''who'', ''name'', ''star'', ''performer'', ''captain'', ''batsman'',
                    ''bowler''] (lower query)"
    and "filter is_number_token (split_ws (join '' '' (take 2 relevant_chunks))) = []"
  shows "generate_mock_chat_response e query relevant_chunks =
           ''Close contest with competitive scoring throughout.''"
  using assms by (simp add: generate_mock_chat_response_def Let_def split del: if_split)

theorem score_query_without_numbers_witness:
  "any_in [''score'', ''result'', ''runs'', ''goals'', ''points'', ''final'']
     (lower ''What was the score?'') \<and>
   \<not> any_in [''player'', ''who'', ''name'', ''star'', ''performer'', ''captain'', ''batsman'',
              ''bowler''] (lower ''What was the score?'') \<and>
   filter is_number_token (split_ws (join '' '' (take 2 [''India beat Australia.'']))) = [] \<and>
   generate_mock_chat_response model_down ''What was the score?'' [''India beat Australia.''] =
     ''Close contest with competitive scoring throughout.''"
proof -
  have a: "any_in [''score'', ''result'', ''runs'', ''goals'', ''points'', ''final'']
             (lower ''What was the score?'')"
    by code_simp
  have b: "\<not> any_in [''player'', ''who'', ''name'', ''star'', ''performer'', ''captain'',
                       ''batsman'', ''bowler''] (lower ''What was the score?'')"
    by code_simp
  have c: "filter is_number_token (split_ws (join '' '' (take 2 [''India beat Australia.'']))) = []"
    by code_simp
  show ?thesis
    using a b c score_query_without_numbers [OF a b c, of model_down] by blast
qed

text \<open>
  C9 as stated fails for a score query that also contains a player keyword: "Who scored?"
  contains "score" and "who", the player rule comes first, and the answer names players.
\<close>

theorem score_query_with_player_word_counterexample:
  "any_in [''score'', ''result'', ''runs'', ''goals'', ''points'', ''final''] (lower ''Who scored?'') \<and>
   filter is_number_token (split_ws (join '' '' (take 2 []))) = [] \<and>
   generate_mock_chat_response model_down ''Who scored?'' [] = ''Star players: Virat Kohli, Joe Root''"
  by code_simp

end
